theory Spec2Isabelle
  imports Main "HOL-Library.Multiset"
begin

section \<open>Errors and the error monad\<close>

text \<open>
  The method \<open>PivotNeighbHorderHashPivInvIndex\<close> (file
  \<open>pivot_neighb_horder_hashpiv_invindx.cc\<close>) signals failure by throwing
  \<open>runtime_error\<close>, either directly or through \<open>CHECK\<close>/\<open>CHECK_MSG\<close>.
  Every throw of the source is a value \<open>Inl e\<close> of the model. Reads outside a
  vector and integer division by zero are undefined behaviour in C++; the model
  makes them errors of their own, so that no theorem rests on them.
\<close>

datatype error =
    RuntimeError string
  | CheckFailed string
  | BadParam string
  | OutOfBounds
  | DivByZero

definition bindE :: "error + 'a \<Rightarrow> ('a \<Rightarrow> error + 'b) \<Rightarrow> error + 'b" where
  "bindE m f = (case m of Inl e \<Rightarrow> Inl e | Inr v \<Rightarrow> f v)"

definition isOk :: "error + 'a \<Rightarrow> bool" where
  "isOk m = (case m of Inl e \<Rightarrow> False | Inr v \<Rightarrow> True)"

section \<open>Parameters\<close>

datatype pval = PNum nat | PBool bool | PStr string

type_synonym AnyParams = "(string \<times> pval) list"

definition hasParam :: "AnyParams \<Rightarrow> string \<Rightarrow> bool" where
  "hasParam ps name = (case map_of ps name of None \<Rightarrow> False | Some v \<Rightarrow> True)"

text \<open>
  Modelled from the spec: \<open>AnyParamManager::GetParamOptional\<close> lives in a header that
  is not part of the sources. Section 4.8 of the spec gives each option a default; the
  call \<open>GetParamOptional(name, field, default)\<close> assigns to the field the value of the
  parameter when it is specified and the default otherwise. A value of the wrong kind
  is a conversion failure.
\<close>

definition getNum :: "AnyParams \<Rightarrow> string \<Rightarrow> nat \<Rightarrow> error + nat" where
  "getNum ps name dflt =
     (case map_of ps name of
        None \<Rightarrow> Inr dflt
      | Some (PNum n) \<Rightarrow> Inr n
      | Some (PBool b) \<Rightarrow> Inl (BadParam name)
      | Some (PStr s) \<Rightarrow> Inl (BadParam name))"

definition getBool :: "AnyParams \<Rightarrow> string \<Rightarrow> bool \<Rightarrow> error + bool" where
  "getBool ps name dflt =
     (case map_of ps name of
        None \<Rightarrow> Inr dflt
      | Some (PBool b) \<Rightarrow> Inr b
      | Some (PNum n) \<Rightarrow> Inl (BadParam name)
      | Some (PStr s) \<Rightarrow> Inl (BadParam name))"

definition getStr :: "AnyParams \<Rightarrow> string \<Rightarrow> string \<Rightarrow> error + string" where
  "getStr ps name dflt =
     (case map_of ps name of
        None \<Rightarrow> Inr dflt
      | Some (PStr s) \<Rightarrow> Inr s
      | Some (PNum n) \<Rightarrow> Inl (BadParam name)
      | Some (PBool b) \<Rightarrow> Inl (BadParam name))"

text \<open>
  Modelled from the spec: \<open>AnyParamManager::CheckUnused\<close> (same header) rejects a
  parameter that no \<open>GetParamOptional\<close> call asked for (``unknown key'' in section
  4.8).
\<close>

definition CheckUnused :: "AnyParams \<Rightarrow> string list \<Rightarrow> error + unit" where
  "CheckUnused ps known =
     (case filter (\<lambda>n. n \<notin> set known) (map fst ps) of
        [] \<Rightarrow> Inr ()
      | n # ns \<Rightarrow> Inl (BadParam n))"

section \<open>The index object\<close>

datatype InvProcAlg = kScan | kStoreSort | kMerge | kPriorQueue

text \<open>
  The fields of the class that the modelled methods read or write. Objects are
  addressed by their position in \<open>data_\<close>; \<open>dataQty\<close> is \<open>data_.size()\<close>. The
  trailing underscore of the C++ member names is dropped.
\<close>

record Index =
  dataQty :: nat
  num_pivot :: nat
  num_prefix :: nat
  index_thread_qty :: nat
  disable_pivot_index :: bool
  hash_trick_dim :: nat
  pivot_file :: string
  skip_val :: nat
  pivot_comb_qty :: nat
  print_pivot_stat :: nat
  maxPostQty :: nat
  exp_avg_post_size :: nat
  exp_post_per_query_qty :: nat
  skip_checking :: bool
  inv_proc_alg :: InvProcAlg
  min_times :: nat
  num_prefix_search :: nat
  posting_lists :: "nat list list"
  tmp_posting_lists :: "nat list list list"
  tmp_post_doc_qty :: "nat list"

text \<open>The constructor: it stores the data set and clears \<open>disable_pivot_index_\<close>.\<close>

definition new_Index :: "nat \<Rightarrow> Index" where
  "new_Index d =
     \<lparr> dataQty = d, num_pivot = 0, num_prefix = 0, index_thread_qty = 0,
       disable_pivot_index = False, hash_trick_dim = 0, pivot_file = [],
       skip_val = 0, pivot_comb_qty = 0, print_pivot_stat = 0, maxPostQty = 0,
       exp_avg_post_size = 0, exp_post_per_query_qty = 0, skip_checking = False,
       inv_proc_alg = kStoreSort, min_times = 0, num_prefix_search = 0,
       posting_lists = [], tmp_posting_lists = [], tmp_post_doc_qty = [] \<rparr>"

section \<open>Query-time parameters\<close>

text \<open>
  Modelled from the spec: the names of the four inverted-file processing algorithms
  are macros of an absent header; section 4.8 lists them as
  scan, store-sort, merge and priority-queue.
\<close>

definition PERM_PROC_FAST_SCAN :: string where "PERM_PROC_FAST_SCAN = ''scan''"
definition PERM_PROC_STORE_SORT :: string where "PERM_PROC_STORE_SORT = ''store-sort''"
definition PERM_PROC_MERGE :: string where "PERM_PROC_MERGE = ''merge''"
definition PERM_PROC_PRIOR_QUEUE :: string where "PERM_PROC_PRIOR_QUEUE = ''priority-queue''"

definition parseInvProcAlg :: "string \<Rightarrow> error + InvProcAlg" where
  "parseInvProcAlg s =
     (if s = PERM_PROC_FAST_SCAN then Inr kScan
      else if s = PERM_PROC_STORE_SORT then Inr kStoreSort
      else if s = PERM_PROC_MERGE then Inr kMerge
      else if s = PERM_PROC_PRIOR_QUEUE then Inr kPriorQueue
      else Inl (RuntimeError ''Unknown value of parameter for the inverted file processing algorithm''))"

text \<open>
  \<open>SetQueryTimeParams\<close>, lines 269--313. The two calls that fill \<open>min_times_\<close> are
  kept as the source has them: first from \<open>minTimes\<close> with default 2, then from
  \<open>numPivotSearch\<close>, again with default 2.
\<close>

definition SetQueryTimeParams :: "Index \<Rightarrow> AnyParams \<Rightarrow> error + Index" where
  "SetQueryTimeParams this QueryTimeParams =
     bindE (getBool QueryTimeParams ''skipChecking'' False) (\<lambda>sc.
     bindE (getStr QueryTimeParams ''invProcAlg'' PERM_PROC_STORE_SORT) (\<lambda>alg_name.
     if hasParam QueryTimeParams ''minTimes'' \<and> hasParam QueryTimeParams ''numPivotSearch''
     then Inl (RuntimeError ''minTimes and numPivotSearch are synonyms'')
     else
     bindE (getNum QueryTimeParams ''minTimes'' 2) (\<lambda>mt1.
     bindE (getNum QueryTimeParams ''numPivotSearch'' 2) (\<lambda>mt2.
     bindE (getNum QueryTimeParams ''numPrefixSearch'' (num_prefix this)) (\<lambda>nps.
     if nps > num_pivot this
     then Inl (RuntimeError ''numPrefixSearch should be <= numPivot'')
     else
     bindE (parseInvProcAlg alg_name) (\<lambda>alg.
     bindE (CheckUnused QueryTimeParams
              [''skipChecking'', ''invProcAlg'', ''minTimes'', ''numPivotSearch'',
               ''numPrefixSearch'']) (\<lambda>u.
     Inr (this\<lparr> skip_checking := sc, min_times := mt2,
                num_prefix_search := nps, inv_proc_alg := alg \<rparr>))))))))"

text \<open>\<open>ResetQueryTimeParams\<close> (header): the query-time defaults.\<close>

definition ResetQueryTimeParams :: "Index \<Rightarrow> error + Index" where
  "ResetQueryTimeParams this = SetQueryTimeParams this []"

section \<open>Build-time parameters\<close>

text \<open>
  Modelled from the spec: \<open>getPostQtys\<close> is declared in the absent header. Section 3:
  \<open>maxPostQty\<close> is the ceiling of \<open>N / skip_val\<close> for k = 1, of
  \<open>N (N - 1) / (2 skip_val)\<close> for k = 2 and of \<open>N (N - 1) (N - 2) / (6 skip_val)\<close> for
  k = 3. Dividing by a zero \<open>skip_val\<close> is an arithmetic fault.
\<close>

definition getPostQtys :: "nat \<Rightarrow> nat \<Rightarrow> nat \<Rightarrow> error + nat" where
  "getPostQtys n k skipVal =
     (if skipVal = 0 then Inl DivByZero
      else if k = 1 then Inr ((n + skipVal - 1) div skipVal)
      else if k = 2 then Inr ((n * (n - 1) div 2 + skipVal - 1) div skipVal)
      else if k = 3 then Inr ((n * (n - 1) * (n - 2) div 6 + skipVal - 1) div skipVal)
      else Inl (CheckFailed ''Illegal number of pivots in the combinations''))"

text \<open>
  The first part of \<open>CreateIndex\<close>, lines 68--105: reading and checking the
  parameters. \<open>hw\<close> is \<open>thread::hardware_concurrency()\<close>. The two estimates of lines
  104--105 divide unsigned integers; a zero divisor is an arithmetic fault.
\<close>

definition CreateIndex_params :: "Index \<Rightarrow> AnyParams \<Rightarrow> nat \<Rightarrow> error + Index" where
  "CreateIndex_params this IndexParams hw =
     bindE (getNum IndexParams ''numPivot'' 512) (\<lambda>npiv.
     if hasParam IndexParams ''numPivotIndex'' \<and> hasParam IndexParams ''numPrefix''
     then Inl (RuntimeError ''numPrefix and numPivotIndex are synonyms'')
     else
     bindE (getNum IndexParams ''numPivotIndex'' 32) (\<lambda>npre1.
     bindE (getNum IndexParams ''numPrefix'' npre1) (\<lambda>npre.
     bindE (getNum IndexParams ''indexThreadQty'' hw) (\<lambda>itq.
     bindE (getBool IndexParams ''disablePivotIndex'' False) (\<lambda>dpi.
     bindE (getNum IndexParams ''hashTrickDim'' 0) (\<lambda>htd.
     if npre > npiv
     then Inl (RuntimeError ''numPrefix should be <= numPivot'')
     else
     bindE (getStr IndexParams ''pivotFile'' []) (\<lambda>pf.
     bindE (getNum IndexParams ''skipVal'' 1) (\<lambda>sv.
     bindE (getNum IndexParams ''pivotCombQty'' 2) (\<lambda>pcq.
     bindE (getNum IndexParams ''printPivotStat'' 0) (\<lambda>pps.
     if \<not> (pcq \<noteq> 0 \<and> pcq \<le> 3)
     then Inl (CheckFailed ''Illegal number of pivots in the combinations'')
     else
     bindE (CheckUnused IndexParams
              [''numPivot'', ''numPivotIndex'', ''numPrefix'', ''indexThreadQty'',
               ''disablePivotIndex'', ''hashTrickDim'', ''pivotFile'', ''skipVal'',
               ''pivotCombQty'', ''printPivotStat'']) (\<lambda>u.
     bindE (ResetQueryTimeParams
              (this\<lparr> num_pivot := npiv, num_prefix := npre, index_thread_qty := itq,
                     disable_pivot_index := dpi, hash_trick_dim := htd, pivot_file := pf,
                     skip_val := sv, pivot_comb_qty := pcq, print_pivot_stat := pps \<rparr>))
       (\<lambda>this1.
     bindE (getPostQtys npiv pcq sv) (\<lambda>mpq.
     if pcq \<noteq> 2
     then Inl (CheckFailed ''Only two pivot combinations are currently supported'')
     else if 2 * sv * mpq = 0 then Inl DivByZero
     else
       let avg = dataQty this * (npre - 1) * npre div (2 * sv * mpq)
       in Inr (this1\<lparr> maxPostQty := mpq, exp_avg_post_size := avg,
                 exp_post_per_query_qty :=
                   avg * num_prefix_search this1 * (num_prefix_search this1 - 1) div (2 * sv)
               \<rparr>))))))))))))))"

section \<open>Persistence\<close>

text \<open>
  \<open>SaveIndex\<close> (lines 334--373) and \<open>LoadIndex\<close> (lines 376--480). The file system
  maps a location to the lines of the file. Opening an \<open>ofstream\<close> creates the file
  or truncates it; \<open>can_write\<close> says whether that succeeds. Opening an \<open>ifstream\<close>
  succeeds on a file that exists. In both methods the statement after the stream is
  set up is an unconditional \<open>throw\<close>; the writes and reads that follow it in the
  source are never reached and the bind below never runs them.
\<close>

type_synonym fsys = "string \<Rightarrow> string list option"

definition SaveIndex_lines :: "Index \<Rightarrow> string list" where
  "SaveIndex_lines this =
     [''methodDesc'', ''numPivot'', ''numPivotIndex'', ''skipVal'', ''pivotCombQty'',
      ''indexQty'', ''pivotFile'', ''disablePivotIndex'', ''hashTrickDim'', ''postQty'']
     @ map (\<lambda>pl. ''posting'') (posting_lists this) @ [''lineQty'']"

definition never_updated :: "error + unit" where
  "never_updated = Inl (RuntimeError ''This was never properly updated, likely it does not work!'')"

definition SaveIndex ::
  "Index \<Rightarrow> string \<Rightarrow> (string \<Rightarrow> bool) \<Rightarrow> fsys \<Rightarrow> (error + unit) \<times> Index \<times> fsys" where
  "SaveIndex this location can_write fs =
     (if \<not> can_write location
      then (Inl (CheckFailed ''Cannot open file for writing''), this, fs)
      else
        let fs1 = fs(location \<mapsto> [])
        in (case never_updated of
              Inl e \<Rightarrow> (Inl e, this, fs1)
            | Inr u \<Rightarrow> (Inr (), this, fs1(location \<mapsto> SaveIndex_lines this))))"

definition LoadIndex :: "Index \<Rightarrow> string \<Rightarrow> fsys \<Rightarrow> (error + unit) \<times> Index" where
  "LoadIndex this location fs =
     (case fs location of
        None \<Rightarrow> (Inl (CheckFailed ''Cannot open file for reading''), this)
      | Some ls \<Rightarrow>
         (case never_updated of
            Inl e \<Rightarrow> (Inl e, this)
          | Inr u \<Rightarrow> (Inr (), this\<lparr> posting_lists := map (\<lambda>l. []) ls \<rparr>)))"

section \<open>The combination-key encoder\<close>

text \<open>
  Modelled from the spec: \<open>PostingListIndex\<close> is declared in the absent header.
  Section 4.3: \<open>PAIR(x, y) = max(x,y) (max(x,y) - 1) / 2 + min(x,y)\<close>, and the
  index of a triple is the canonical index of the sorted triple into a tetrahedral
  array.
\<close>

definition PostingListIndex :: "nat \<Rightarrow> nat \<Rightarrow> nat" where
  "PostingListIndex x y = max x y * (max x y - 1) div 2 + min x y"

definition PostingListIndex3 :: "nat \<Rightarrow> nat \<Rightarrow> nat \<Rightarrow> nat" where
  "PostingListIndex3 x y z =
     (let hi = max x (max y z); lo = min x (min y z); mid = x + y + z - hi - lo
      in hi * (hi - 1) * (hi - 2) div 6 + mid * (mid - 1) div 2 + lo)"

text \<open>\<open>vector::resize\<close>: cut, or pad with value-initialised elements.\<close>

definition resize :: "nat list \<Rightarrow> nat \<Rightarrow> nat list" where
  "resize xs n = take n xs @ replicate (n - length xs) 0"

text \<open>
  The three lines that every branch of \<open>genPivotCombIds\<close> runs for a surviving
  key: grow the buffer when \<open>resSize + 1 >= ids.size()\<close>, then
  \<open>ids[resSize++] = idiv\<close>.
\<close>

definition emit :: "nat list \<times> nat \<Rightarrow> nat \<Rightarrow> nat list \<times> nat" where
  "emit st idiv =
     (let ids = fst st; resSize = snd st;
          ids1 = (if resSize + 1 \<ge> length ids then resize ids (2 * (resSize + 1)) else ids)
      in (ids1[resSize := idiv], resSize + 1))"

text \<open>A \<open>for\<close> loop over a range or a container, whose body may fail.\<close>

fun forE :: "'a list \<Rightarrow> 's \<Rightarrow> ('a \<Rightarrow> 's \<Rightarrow> error + 's) \<Rightarrow> error + 's" where
  "forE [] s body = Inr s"
| "forE (i # is) s body = bindE (body i s) (\<lambda>s1. forE is s1 body)"

text \<open>
  Conversion to \<open>uint32_t\<close>: the value modulo \<open>2 ^ 32\<close>. The second equation is the
  one evaluation uses; it computes the same remainder on binary integers.
\<close>

definition trunc32 :: "nat \<Rightarrow> nat" where
  "trunc32 x = x mod 2 ^ 32"

lemma trunc32_code [code]: "trunc32 x = nat (int x mod 4294967296)"
  by (simp add: trunc32_def nat_mod_distrib)

text \<open>
  The skip-val filter on one index: \<open>uint32_t idiv = index / skip_val_\<close>,
  \<open>imod = index % skip_val_\<close>, and the key is kept when \<open>imod == 0\<close>. The third
  branch (line 535) first stores the index in an \<open>IdTypeUnsign\<close>, which cuts it to 32
  bits, and computes \<open>imod\<close> as \<open>index - idiv * skip_val_\<close>.
\<close>

definition skipFilter :: "nat \<Rightarrow> nat \<Rightarrow> nat list \<times> nat \<Rightarrow> error + nat list \<times> nat" where
  "skipFilter sv index st =
     (if sv = 0 then Inl DivByZero
      else let idiv = trunc32 (index div sv); imod = index mod sv
           in if imod = 0 then Inr (emit st idiv) else Inr st)"

definition skipFilter3 :: "nat \<Rightarrow> nat \<Rightarrow> nat list \<times> nat \<Rightarrow> error + nat list \<times> nat" where
  "skipFilter3 sv index0 st =
     (if sv = 0 then Inl DivByZero
      else let index = trunc32 index0; idiv = trunc32 (index div sv); imod = index - idiv * sv
           in if imod = 0 then Inr (emit st idiv) else Inr st)"

text \<open>
  \<open>genPivotCombIds\<close>, lines 483--549. The result is the buffer and the number of
  keys written. Reading \<open>perm\<close> past its end is an error of the model.
\<close>

definition genPivotCombIds ::
  "Index \<Rightarrow> nat list \<Rightarrow> nat list \<Rightarrow> nat \<Rightarrow> error + nat list \<times> nat" where
  "genPivotCombIds this ids perm permPrefixSize =
     (if \<not> (pivot_comb_qty this \<noteq> 0 \<and> pivot_comb_qty this \<le> 3)
      then Inl (CheckFailed ''Illegal number of pivots in the combinations'')
      else if pivot_comb_qty this = 1 then
        (if \<not> permPrefixSize < length perm
         then Inl (CheckFailed ''permPrefixSize < perm.size()'')
         else forE [0..<permPrefixSize] (ids, 0) (\<lambda>i st.
                if i \<ge> length perm then Inl OutOfBounds
                else skipFilter (skip_val this) (perm ! i) st))
      else if pivot_comb_qty this = 2 then
        forE [1..<permPrefixSize] (ids, 0) (\<lambda>j st.
          forE [0..<j] st (\<lambda>k st1.
            if j \<ge> length perm then Inl OutOfBounds
            else if k \<ge> length perm then Inl OutOfBounds
            else skipFilter (skip_val this) (PostingListIndex (perm ! j) (perm ! k)) st1))
      else
        forE [2..<permPrefixSize] (ids, 0) (\<lambda>j st.
          forE [1..<j] st (\<lambda>k st1.
            forE [0..<k] st1 (\<lambda>l st2.
              if j \<ge> length perm then Inl OutOfBounds
              else if k \<ge> length perm then Inl OutOfBounds
              else if l \<ge> length perm then Inl OutOfBounds
              else skipFilter3 (skip_val this)
                     (PostingListIndex3 (perm ! j) (perm ! k) (perm ! l)) st2))))"

section \<open>Permutations\<close>

text \<open>
  \<open>GetPermutationPPIndexEfficiently(p, vDst)\<close>, lines 252--265, for the instance
  \<open>dist_t = int\<close>: the pairs (distance, pivot id) are sorted, so pivot ids come in
  ascending distance and, at equal distance, in ascending id. A stable sort of the
  ids by distance gives the same sequence. \<open>pivot_.size()\<close> is \<open>num_pivot_\<close> once
  the pivots are loaded.
\<close>

definition GetPermutationPPIndexEfficiently :: "Index \<Rightarrow> int list \<Rightarrow> error + nat list" where
  "GetPermutationPPIndexEfficiently this vDst =
     (if length vDst < num_pivot this then Inl OutOfBounds
      else Inr (sort_key (\<lambda>i. vDst ! i) [0..<num_pivot this]))"

section \<open>Building the index\<close>

definition MAX_TMP_DOC_QTY :: nat where
  "MAX_TMP_DOC_QTY = 4096 * 32"

text \<open>
  The test \<open>++tmp_post_doc_qty_[threadId] >= MAX_TMP_DOC_QTY\<close> of line 183, on the
  incremented counter. The second equation is the one evaluation uses.
\<close>

definition flush_due :: "nat \<Rightarrow> bool" where
  "flush_due qty = (qty \<ge> MAX_TMP_DOC_QTY)"

lemma flush_due_code [code]: "flush_due qty = (int qty \<ge> 131072)"
  by (simp add: flush_due_def MAX_TMP_DOC_QTY_def)

text \<open>
  Modelled from the spec: \<open>ParallelFor\<close> belongs to the absent thread pool
  (section 6: \<open>parallel_for(range, workers, body(item, worker_id))\<close>). Which worker
  runs which item, and in which order, is the pool's choice. The model takes that
  choice as a schedule, the list of (item, worker) pairs in the order the bodies
  run; a body runs as one step. \<open>is_schedule\<close> says that a schedule hands out every
  item of the range once, to workers that exist. A pool of one worker runs the items
  in ascending order.
\<close>

fun ParallelFor ::
  "(nat \<times> nat) list \<Rightarrow> 's \<Rightarrow> (nat \<Rightarrow> nat \<Rightarrow> 's \<Rightarrow> error + 's) \<Rightarrow> error + 's" where
  "ParallelFor [] s body = Inr s"
| "ParallelFor (it # rest) s body =
     bindE (body (fst it) (snd it) s) (\<lambda>s1. ParallelFor rest s1 body)"

definition is_schedule :: "nat \<Rightarrow> nat \<Rightarrow> nat \<Rightarrow> (nat \<times> nat) list \<Rightarrow> bool" where
  "is_schedule lo hi numThreads sch =
     (if numThreads = 1 then sch = map (\<lambda>i. (i, 0)) [lo..<hi]
      else mset (map fst sch) = mset [lo..<hi]
           \<and> list_all (\<lambda>it. snd it < numThreads) sch)"

text \<open>
  Modelled from the spec: \<open>flushTmpPost\<close> is not in the sources. Section 4.5: a
  flush drains the private buckets of the worker into the shared store, clears the
  private buckets and resets the worker's document counter.
\<close>

definition flushTmpPost :: "Index \<Rightarrow> nat \<Rightarrow> error + Index" where
  "flushTmpPost this threadId =
     (if threadId \<ge> length (tmp_posting_lists this) \<or> threadId \<ge> length (tmp_post_doc_qty this)
      then Inl OutOfBounds
      else Inr (this\<lparr>
        posting_lists :=
          map (\<lambda>pr. fst pr @ snd pr) (zip (posting_lists this) (tmp_posting_lists this ! threadId)),
        tmp_posting_lists :=
          (tmp_posting_lists this)[threadId := map (\<lambda>l. []) (tmp_posting_lists this ! threadId)],
        tmp_post_doc_qty := (tmp_post_doc_qty this)[threadId := 0] \<rparr>))"

text \<open>
  The body of the first \<open>ParallelFor\<close> of \<open>CreateIndex\<close>, lines 161--194, for the
  object \<open>id\<close> on the worker \<open>threadId\<close>. \<open>vDstOf\<close> is the pivot-distance oracle at
  index time. The key buffer comes from a pool of vectors of size \<open>maxPostQty_\<close>.
\<close>

definition indexObject :: "(nat \<Rightarrow> int list) \<Rightarrow> nat \<Rightarrow> nat \<Rightarrow> Index \<Rightarrow> error + Index" where
  "indexObject vDstOf ident threadId this =
     bindE (GetPermutationPPIndexEfficiently this (vDstOf ident)) (\<lambda>perm.
     if \<not> threadId < index_thread_qty this
     then Inl (CheckFailed ''threadId < index_thread_qty_'')
     else
     bindE (genPivotCombIds this (replicate (maxPostQty this) 0) perm (num_prefix this)) (\<lambda>res.
     if threadId \<ge> length (tmp_posting_lists this) \<or> threadId \<ge> length (tmp_post_doc_qty this)
     then Inl OutOfBounds
     else
     bindE (forE [0..<snd res] (tmp_posting_lists this ! threadId) (\<lambda>i postList.
              if i \<ge> length (fst res) then Inl OutOfBounds
              else if \<not> fst res ! i < maxPostQty this
              then Inl (CheckFailed ''bug cid >= maxPostQty'')
              else if fst res ! i \<ge> length postList then Inl OutOfBounds
              else Inr (postList[fst res ! i := postList ! (fst res ! i) @ [ident]])))
       (\<lambda>postList.
     let this1 = this\<lparr>
           tmp_posting_lists := (tmp_posting_lists this)[threadId := postList],
           tmp_post_doc_qty :=
             (tmp_post_doc_qty this)[threadId := tmp_post_doc_qty this ! threadId + 1] \<rparr>
     in if flush_due (tmp_post_doc_qty this1 ! threadId)
        then flushTmpPost this1 threadId else Inr this1)))"

text \<open>
  The body of the second \<open>ParallelFor\<close>, lines 197--201: flush the worker, then
  sort the shared list number \<open>pivId\<close>.
\<close>

definition sortPosting :: "nat \<Rightarrow> nat \<Rightarrow> Index \<Rightarrow> error + Index" where
  "sortPosting pivId threadId this =
     bindE (flushTmpPost this threadId) (\<lambda>this1.
     if pivId \<ge> length (posting_lists this1) then Inl OutOfBounds
     else Inr (this1\<lparr> posting_lists :=
                 (posting_lists this1)[pivId := sort (posting_lists this1 ! pivId)] \<rparr>))"

text \<open>
  What \<open>CreateIndex\<close> takes from its surroundings: the hardware concurrency,
  whether \<open>GetPermutationPivot\<close> can draw \<open>num_pivot_\<close> pivots from the data set
  (the function is not in the sources; it is used when no pivot file is named), the
  number of pivots that \<open>ReadDataset\<close> finds in the pivot file, the pivot-distance
  oracle, and the schedules of the two parallel loops (over the objects, and over
  \<open>[0, num_pivot_)\<close>).
\<close>

record BuildEnv =
  hw_concurrency :: nat
  sample_pivots_ok :: bool
  file_pivot_qty :: nat
  vDstOf :: "nat \<Rightarrow> int list"
  sched_objects :: "(nat \<times> nat) list"
  sched_sort :: "(nat \<times> nat) list"

text \<open>\<open>CreateIndex\<close>, lines 67--233.\<close>

definition CreateIndex :: "Index \<Rightarrow> AnyParams \<Rightarrow> BuildEnv \<Rightarrow> error + Index" where
  "CreateIndex this IndexParams env =
     bindE (CreateIndex_params this IndexParams (hw_concurrency env)) (\<lambda>this1.
     if pivot_file this1 = [] \<and> \<not> sample_pivots_ok env
     then Inl (RuntimeError ''GetPermutationPivot: cannot select the pivots'')
     else if pivot_file this1 \<noteq> [] \<and> file_pivot_qty env < num_pivot this1
     then Inl (RuntimeError ''Not enough pivots in the file'')
     else
     let this2 = this1\<lparr>
           posting_lists := replicate (maxPostQty this1) [],
           tmp_posting_lists :=
             replicate (index_thread_qty this1) (replicate (maxPostQty this1) []),
           tmp_post_doc_qty := replicate (index_thread_qty this1) 0 \<rparr>
     in
     bindE (ParallelFor (sched_objects env) this2 (indexObject (vDstOf env))) (\<lambda>this3.
     ParallelFor (sched_sort env) this3 sortPosting))"

section \<open>Searching\<close>

text \<open>
  The threshold of lines 604--610, with \<open>SCALE_MIN_TIMES\<close> set (line 41). The
  arithmetic is on natural numbers, which is the arithmetic of the source as long as
  \<open>num_prefix_ \<ge> 1\<close> (no subtraction goes below zero) and the products fit a
  \<open>size_t\<close>. Outside these bounds the source wraps and this definition does not: at
  \<open>num_prefix_ = 0\<close> the source computes a huge threshold where this definition gives 0.
  Every statement on thresholds below assumes \<open>num_prefix_ \<ge> 1\<close>.
\<close>

definition thresh_of :: "Index \<Rightarrow> nat" where
  "thresh_of this =
     (let thresh1 = min_times this;
          thresh3 = (if pivot_comb_qty this = 3
                     then min_times this * (num_prefix this - 1) * (num_prefix this - 2) div 6
                     else thresh1)
      in if pivot_comb_qty this = 2
         then min_times this * (num_prefix this - 1) div 2
         else thresh3)"

text \<open>
  \<open>addToVectorWithResSize(cands, data_start[i], candQty)\<close>: the object at position
  \<open>i\<close> of the data set is appended to the candidates. A candidate is written as its
  position; a position outside the data set is a read outside \<open>data_\<close>.
\<close>

definition addCand :: "Index \<Rightarrow> nat list \<Rightarrow> nat \<Rightarrow> error + nat list" where
  "addCand this cands i =
     (if i \<ge> dataQty this then Inl OutOfBounds else Inr (cands @ [i]))"

text \<open>
  The head of the loop over the query keys, the same in all four algorithms:
  \<open>idiv = combIds[kk]\<close>, the check \<open>idiv < posting_lists_.size()\<close>, and the posting
  list \<open>*posting_lists_[idiv]\<close>.
\<close>

definition queryPost :: "Index \<Rightarrow> nat list \<Rightarrow> nat \<Rightarrow> error + nat list" where
  "queryPost this combIds kk =
     (if kk \<ge> length combIds then Inl OutOfBounds
      else if \<not> combIds ! kk < length (posting_lists this)
      then Inl (CheckFailed ''idiv < posting_lists_.size()'')
      else Inr (posting_lists this ! (combIds ! kk)))"

subsection \<open>Scan, lines 684--706\<close>

text \<open>The counters are \<open>unsigned\<close>: \<open>counter[p] += skip_val_\<close> wraps at \<open>2 ^ 32\<close>.\<close>

definition procScan :: "Index \<Rightarrow> nat list \<Rightarrow> nat \<Rightarrow> nat \<Rightarrow> error + nat list" where
  "procScan this combIds cqty thresh =
     (if \<not> 1 \<le> num_prefix_search this
      then Inl (CheckFailed ''num_prefix_search_ >= 1'')
      else
        bindE (forE [0..<cqty] (replicate (dataQty this) 0) (\<lambda>kk counter.
                 bindE (queryPost this combIds kk) (\<lambda>post.
                 forE post counter (\<lambda>p counter1.
                   if p \<ge> length counter1 then Inl OutOfBounds
                   else Inr (counter1[p := trunc32 (counter1 ! p + skip_val this)])))))
          (\<lambda>counter.
        forE [0..<dataQty this] [] (\<lambda>i cands.
          if counter ! i \<ge> thresh then addCand this cands i else Inr cands)))"

subsection \<open>Store and sort, lines 735--778\<close>

text \<open>
  Copying one posting list behind the \<open>tmpResSize\<close> elements already in the
  buffer: the buffer grows when it is too short, then \<open>memcpy\<close> overwrites
  \<open>post.size()\<close> elements from position \<open>tmpResSize\<close>.
\<close>

definition copyPost :: "nat list \<Rightarrow> nat list \<times> nat \<Rightarrow> nat list \<times> nat" where
  "copyPost post st =
     (let tmpRes = fst st; tmpResSize = snd st;
          tmpRes1 = (if length post + tmpResSize > length tmpRes
                     then resize tmpRes (2 * tmpResSize + length post) else tmpRes)
      in (take tmpResSize tmpRes1 @ post @ drop (tmpResSize + length post) tmpRes1,
          tmpResSize + length post))"

text \<open>The inner loop of line 770: the end of the run of \<open>prevId\<close> that starts before \<open>nxt\<close>.\<close>

function runEnd :: "nat list \<Rightarrow> nat \<Rightarrow> nat \<Rightarrow> nat \<Rightarrow> nat" where
  "runEnd tmpRes tmpResSize prevId nxt =
     (if nxt < tmpResSize \<and> tmpRes ! nxt = prevId
      then runEnd tmpRes tmpResSize prevId (nxt + 1) else nxt)"
  by pat_completeness auto
termination
  by (relation "measure (\<lambda>(tmpRes, tmpResSize, prevId, nxt). tmpResSize - nxt)") auto

declare runEnd.simps [simp del]

lemma runEnd_ge: "nxt \<le> runEnd tmpRes tmpResSize prevId nxt"
proof (induction tmpRes tmpResSize prevId nxt rule: runEnd.induct)
  case (1 tmpRes tmpResSize prevId nxt)
  show ?case
  proof (cases "nxt < tmpResSize \<and> tmpRes ! nxt = prevId")
    case True
    with "1.IH" have "nxt + 1 \<le> runEnd tmpRes tmpResSize prevId (nxt + 1)" by simp
    moreover from True
    have "runEnd tmpRes tmpResSize prevId nxt = runEnd tmpRes tmpResSize prevId (nxt + 1)"
      by (subst runEnd.simps) simp
    ultimately show ?thesis by simp
  next
    case False
    then have "runEnd tmpRes tmpResSize prevId nxt = nxt"
      by (subst runEnd.simps) auto
    then show ?thesis by simp
  qed
qed

text \<open>The walk over the sorted buffer, lines 766--775.\<close>

function scanSorted ::
  "Index \<Rightarrow> nat \<Rightarrow> nat list \<Rightarrow> nat \<Rightarrow> nat \<Rightarrow> nat list \<Rightarrow> error + nat list" where
  "scanSorted this thresh tmpRes tmpResSize start cands =
     (if start < tmpResSize
      then
        (if skip_val this * (runEnd tmpRes tmpResSize (tmpRes ! start) (start + 1) - start)
              \<ge> thresh
         then (case addCand this cands (tmpRes ! start) of
                 Inl e \<Rightarrow> Inl e
               | Inr cands1 \<Rightarrow>
                   scanSorted this thresh tmpRes tmpResSize
                     (runEnd tmpRes tmpResSize (tmpRes ! start) (start + 1)) cands1)
         else scanSorted this thresh tmpRes tmpResSize
                (runEnd tmpRes tmpResSize (tmpRes ! start) (start + 1)) cands)
      else Inr cands)"
  by pat_completeness auto
termination
proof (relation "measure (\<lambda>(this, thresh, tmpRes, tmpResSize, start, cands). tmpResSize - start)",
    goal_cases)
  case 1
  show ?case by simp
next
  case (2 this thresh tmpRes tmpResSize start cands x2)
  have "start + 1 \<le> runEnd tmpRes tmpResSize (tmpRes ! start) (start + 1)"
    by (rule runEnd_ge)
  with 2 show ?case by simp
next
  case (3 this thresh tmpRes tmpResSize start cands)
  have "start + 1 \<le> runEnd tmpRes tmpResSize (tmpRes ! start) (start + 1)"
    by (rule runEnd_ge)
  with 3 show ?case by simp
qed

declare scanSorted.simps [simp del]

definition procStoreSort ::
  "Index \<Rightarrow> nat list \<Rightarrow> nat \<Rightarrow> nat \<Rightarrow> nat list \<Rightarrow> error + nat list" where
  "procStoreSort this combIds cqty thresh tmpRes0 =
     (if \<not> 1 \<le> num_prefix_search this
      then Inl (CheckFailed ''num_prefix_search_ >= 1'')
      else
        bindE (forE [0..<cqty] (tmpRes0, 0) (\<lambda>kk st.
                 bindE (queryPost this combIds kk) (\<lambda>post. Inr (copyPost post st))))
          (\<lambda>st.
        scanSorted this thresh (sort (take (snd st) (fst st)) @ drop (snd st) (fst st))
          (snd st) 0 []))"

subsection \<open>Priority queue, lines 612--682\<close>

text \<open>
  Modelled from the spec: \<open>FalconnHeapMod1\<close> is in an absent header. Section 4.6
  asks for a heap over one cursor per non-empty posting list, whose top is the
  cursor with the smallest current id; the source stores the negated id as the key,
  so the top has the largest key. The model keeps the entries (key, data) in a list
  in descending order of the key; the top is its head.
\<close>

type_synonym heap = "(int \<times> nat) list"

fun heap_push :: "int \<Rightarrow> nat \<Rightarrow> heap \<Rightarrow> heap" where
  "heap_push k d [] = [(k, d)]"
| "heap_push k d (e # h) = (if fst e \<le> k then (k, d) # e # h else e # heap_push k d h)"

definition top_key :: "heap \<Rightarrow> int" where
  "top_key h = fst (hd h)"

definition top_data :: "heap \<Rightarrow> nat" where
  "top_data h = snd (hd h)"

definition heap_pop :: "heap \<Rightarrow> heap" where
  "heap_pop h = tl h"

definition replace_top_key :: "int \<Rightarrow> heap \<Rightarrow> heap" where
  "replace_top_key k h = heap_push k (top_data h) (heap_pop h)"

text \<open>
  \<open>PostListQueryState\<close>: a posting list (\<open>post_\<close>) and the position of the cursor
  in it (\<open>post_pos_\<close>).
\<close>

record PostListQueryState =
  post_list :: "nat list"
  post_pos :: nat

definition daat_measure :: "heap \<Rightarrow> PostListQueryState list \<Rightarrow> nat" where
  "daat_measure h qs =
     length h + sum_list (map (\<lambda>q. length (post_list q) - post_pos q) qs)"

lemma length_heap_push [simp]: "length (heap_push k d h) = Suc (length h)"
  by (induction h) simp_all

lemma sum_list_update_le:
  fixes f :: "'a \<Rightarrow> nat"
  assumes "i < length xs" and "f y \<le> f (xs ! i)"
  shows "sum_list (map f (xs[i := y])) \<le> sum_list (map f xs)"
  using assms
proof (induction xs arbitrary: i)
  case Nil
  then show ?case by simp
next
  case (Cons x xs)
  then show ?case by (cases i) (simp_all add: add_le_mono)
qed

lemma sum_list_update_less:
  fixes f :: "'a \<Rightarrow> nat"
  assumes "i < length xs" and "f y < f (xs ! i)"
  shows "sum_list (map f (xs[i := y])) < sum_list (map f xs)"
  using assms
proof (induction xs arbitrary: i)
  case Nil
  then show ?case by simp
next
  case (Cons x xs)
  then show ?case by (cases i) (simp_all add: add_less_le_mono)
qed

text \<open>
  One step of the inner loop (lines 647--674) on the top entry: add \<open>skip_val_\<close> to
  the accumulator (an \<open>unsigned\<close>), advance the cursor, and either give the top the
  key of the next id or pop it.
\<close>

definition daatStep ::
  "nat \<Rightarrow> heap \<times> PostListQueryState list \<times> nat
     \<Rightarrow> error + heap \<times> PostListQueryState list \<times> nat" where
  "daatStep sv st =
     (let h = fst st; qs = fst (snd st); accum = snd (snd st); qsi = top_data h
      in if qsi \<ge> length qs then Inl OutOfBounds
         else
           let queryState = qs ! qsi; pl = post_list queryState;
               pos1 = post_pos queryState + 1
           in Inr (if pos1 < length pl
                   then replace_top_key (- int (pl ! pos1)) h else heap_pop h,
                   qs[qsi := queryState\<lparr> post_pos := pos1 \<rparr>],
                   trunc32 (accum + sv)))"

lemma daatStep_measure:
  assumes "daatStep sv (h, qs, accum) = Inr st1" and "h \<noteq> []"
  shows "daat_measure (fst st1) (fst (snd st1)) < daat_measure h qs"
proof -
  let ?d = "top_data h"
  let ?q = "qs ! ?d"
  let ?f = "\<lambda>q. length (post_list q) - post_pos q"
  from assms(1) have d: "?d < length qs"
    by (auto simp: daatStep_def Let_def split: if_splits)
  show ?thesis
  proof (cases "post_pos ?q + 1 < length (post_list ?q)")
    case True
    with assms(1) d have s: "st1 = (replace_top_key (- int (post_list ?q ! (post_pos ?q + 1))) h,
        qs[?d := ?q\<lparr> post_pos := post_pos ?q + 1 \<rparr>], trunc32 (accum + sv))"
      by (auto simp: daatStep_def Let_def)
    from True have "?f (?q\<lparr> post_pos := post_pos ?q + 1 \<rparr>) < ?f ?q" by simp
    from sum_list_update_less [of ?d qs ?f, OF d this] assms(2)
    show ?thesis
      by (simp add: s daat_measure_def replace_top_key_def heap_pop_def)
  next
    case False
    with assms(1) d have s: "st1 = (heap_pop h,
        qs[?d := ?q\<lparr> post_pos := post_pos ?q + 1 \<rparr>], trunc32 (accum + sv))"
      by (auto simp: daatStep_def Let_def)
    have "?f (?q\<lparr> post_pos := post_pos ?q + 1 \<rparr>) \<le> ?f ?q" by simp
    from sum_list_update_le [of ?d qs ?f, OF d this] assms(2)
    show ?thesis
      by (cases h) (simp_all add: s daat_measure_def heap_pop_def)
  qed
qed

text \<open>The inner loop: all the entries whose key is \<open>minDocIdNeg\<close>.\<close>

function daatAccum ::
  "nat \<Rightarrow> int \<Rightarrow> heap \<times> PostListQueryState list \<times> nat
     \<Rightarrow> error + heap \<times> PostListQueryState list \<times> nat" where
  "daatAccum sv minDocIdNeg (h, qs, accum) =
     (if h \<noteq> [] \<and> top_key h = minDocIdNeg
      then (case daatStep sv (h, qs, accum) of
              Inl e \<Rightarrow> Inl e
            | Inr st1 \<Rightarrow> daatAccum sv minDocIdNeg (fst st1, fst (snd st1), snd (snd st1)))
      else Inr (h, qs, accum))"
  by pat_completeness auto
termination
proof (relation "measure (\<lambda>(sv, m, h, qs, accum). daat_measure h qs)", goal_cases)
  case 1
  show ?case by simp
next
  case (2 sv minDocIdNeg h qs accum st1)
  then show ?case using daatStep_measure [of sv h qs accum st1]
    by (simp add: case_prod_beta)
qed

declare daatAccum.simps [simp del]

lemma daatAccum_measure:
  "daatAccum sv m (h, qs, accum) = Inr st1 \<Longrightarrow>
   daat_measure (fst st1) (fst (snd st1)) \<le> daat_measure h qs"
proof (induction sv m "(h, qs, accum)" arbitrary: h qs accum rule: daatAccum.induct)
  case (1 sv m h qs accum)
  show ?case
  proof (cases "h \<noteq> [] \<and> top_key h = m")
    case True
    with "1.prems" obtain st0 where s0: "daatStep sv (h, qs, accum) = Inr st0"
      and r: "daatAccum sv m (fst st0, fst (snd st0), snd (snd st0)) = Inr st1"
      by (subst (asm) daatAccum.simps) (auto split: sum.splits)
    from "1.hyps" [OF True s0 r]
    have "daat_measure (fst st1) (fst (snd st1)) \<le> daat_measure (fst st0) (fst (snd st0))"
      by simp
    with daatStep_measure [OF s0] True show ?thesis by simp
  next
    case False
    with "1.prems" have "st1 = (h, qs, accum)"
      by (subst (asm) daatAccum.simps) auto
    then show ?thesis by simp
  qed
qed

lemma daatAccum_measure_less:
  assumes "daatAccum sv (top_key h) (h, qs, accum) = Inr st1" and "h \<noteq> []"
  shows "daat_measure (fst st1) (fst (snd st1)) < daat_measure h qs"
proof -
  from assms obtain st0 where s0: "daatStep sv (h, qs, accum) = Inr st0"
    and r: "daatAccum sv (top_key h) (fst st0, fst (snd st0), snd (snd st0)) = Inr st1"
    by (subst (asm) daatAccum.simps) (auto split: sum.splits)
  from daatAccum_measure [OF r] daatStep_measure [OF s0 assms(2)] show ?thesis by simp
qed

text \<open>
  The outer loop (lines 642--681): one document per round, the one whose id is
  \<open>- minDocIdNeg\<close>. The accumulator starts each round at 0.
\<close>

function daatLoop ::
  "Index \<Rightarrow> nat \<Rightarrow> heap \<times> PostListQueryState list \<times> nat list \<Rightarrow> error + nat list" where
  "daatLoop this thresh (h, qs, cands) =
     (if h \<noteq> []
      then (case daatAccum (skip_val this) (top_key h) (h, qs, 0) of
              Inl e \<Rightarrow> Inl e
            | Inr st1 \<Rightarrow>
                if snd (snd st1) \<ge> thresh
                then (if top_key h > 0 then Inl OutOfBounds
                      else case addCand this cands (nat (- top_key h)) of
                             Inl e \<Rightarrow> Inl e
                           | Inr cands1 \<Rightarrow>
                               daatLoop this thresh (fst st1, fst (snd st1), cands1))
                else daatLoop this thresh (fst st1, fst (snd st1), cands))
      else Inr cands)"
  by pat_completeness auto
termination
proof (relation "measure (\<lambda>(this, thresh, h, qs, cands). daat_measure h qs)", goal_cases)
  case 1
  show ?case by simp
next
  case (2 this thresh h qs cands st1 x2)
  then show ?case using daatAccum_measure_less [of "skip_val this" h qs 0 st1]
    by (simp add: case_prod_beta)
next
  case (3 this thresh h qs cands st1)
  then show ?case using daatAccum_measure_less [of "skip_val this" h qs 0 st1]
    by (simp add: case_prod_beta)
qed

declare daatLoop.simps [simp del]

definition procPriorQueue :: "Index \<Rightarrow> nat list \<Rightarrow> nat \<Rightarrow> nat \<Rightarrow> error + nat list" where
  "procPriorQueue this combIds cqty thresh =
     (if \<not> 1 \<le> num_prefix_search this
      then Inl (CheckFailed ''num_prefix_search_ >= 1'')
      else
        bindE (forE [0..<cqty] ([], []) (\<lambda>kk st.
                 bindE (queryPost this combIds kk) (\<lambda>post.
                 if post \<noteq> []
                 then Inr (heap_push (- int (post ! 0)) (length (snd st)) (fst st),
                           snd st @ [\<lparr> post_list = post, post_pos = 0 \<rparr>])
                 else Inr st)))
          (\<lambda>st. daatLoop this thresh (fst st, snd st, [])))"

subsection \<open>Pairwise merge, lines 708--733\<close>

text \<open>
  Modelled from the spec: \<open>postListUnion\<close> is declared in the absent header.
  Section 4.6: a posting list is merged into the running list of (id, count) pairs,
  sorted by id; the count grows by \<open>skip_val\<close> on an id that is already there, and a
  new id enters with the count \<open>skip_val\<close>. In the call
  \<open>postListUnion(tmpRes[prevRes], post, tmpRes[1 - prevRes], skip_val_)\<close> the first
  argument, the previous result, is the running list and the third receives the
  union.
\<close>

fun postListUnion :: "(nat \<times> nat) list \<Rightarrow> nat list \<Rightarrow> nat \<Rightarrow> (nat \<times> nat) list" where
  "postListUnion [] [] skipVal = []"
| "postListUnion (c # cs) [] skipVal = c # cs"
| "postListUnion [] (p # ps) skipVal = (p, skipVal) # postListUnion [] ps skipVal"
| "postListUnion (c # cs) (p # ps) skipVal =
     (if fst c < p then c # postListUnion cs (p # ps) skipVal
      else if fst c > p then (p, skipVal) # postListUnion (c # cs) ps skipVal
      else (fst c, snd c + skipVal) # postListUnion cs ps skipVal)"

text \<open>The two buffers \<open>tmpRes[0]\<close> and \<open>tmpRes[1]\<close>.\<close>

definition buf_get :: "'a \<times> 'a \<Rightarrow> nat \<Rightarrow> 'a" where
  "buf_get b i = (if i = 0 then fst b else snd b)"

definition buf_set :: "'a \<times> 'a \<Rightarrow> nat \<Rightarrow> 'a \<Rightarrow> 'a \<times> 'a" where
  "buf_set b i v = (if i = 0 then (v, snd b) else (fst b, v))"

definition procMerge :: "Index \<Rightarrow> nat list \<Rightarrow> nat \<Rightarrow> nat \<Rightarrow> error + nat list" where
  "procMerge this combIds cqty thresh =
     (if \<not> 1 \<le> num_prefix_search this
      then Inl (CheckFailed ''num_prefix_search_ >= 1'')
      else
        bindE (forE [0..<cqty] (([], []), 0) (\<lambda>kk st.
                 bindE (queryPost this combIds kk) (\<lambda>post.
                 let tmpRes = fst st; prevRes = snd st
                 in Inr (buf_set tmpRes (1 - prevRes)
                           (postListUnion (buf_get tmpRes prevRes) post (skip_val this)),
                         1 - prevRes))))
          (\<lambda>st.
        forE (buf_get (fst st) (1 - snd st)) [] (\<lambda>it cands.
          if snd it \<ge> thresh then addCand this cands (fst it) else Inr cands)))"

subsection \<open>The query executor\<close>

text \<open>
  \<open>GenSearch\<close>, lines 553--811. \<open>vDstQuery\<close> holds the distances from the query to
  the pivots; \<open>combBuf\<close> and \<open>tmpResBuf\<close> are the vectors lent by the key pool and the
  sort-buffer pool. The result is the candidate list and the list of objects handed
  to \<open>CheckAndAddToResult\<close>, which is the candidate list unless \<open>skip_checking_\<close> is
  set.
\<close>

definition GenSearch ::
  "Index \<Rightarrow> int list \<Rightarrow> nat list \<Rightarrow> nat list \<Rightarrow> error + nat list \<times> nat list" where
  "GenSearch this vDstQuery combBuf tmpResBuf =
     bindE (GetPermutationPPIndexEfficiently this vDstQuery) (\<lambda>perm_q.
     bindE (genPivotCombIds this combBuf perm_q (num_prefix_search this)) (\<lambda>res.
     bindE (case inv_proc_alg this of
              kPriorQueue \<Rightarrow> procPriorQueue this (fst res) (snd res) (thresh_of this)
            | kScan \<Rightarrow> procScan this (fst res) (snd res) (thresh_of this)
            | kMerge \<Rightarrow> procMerge this (fst res) (snd res) (thresh_of this)
            | kStoreSort \<Rightarrow>
                procStoreSort this (fst res) (snd res) (thresh_of this) tmpResBuf) (\<lambda>cands.
     Inr (cands, if skip_checking this then [] else cands))))"

section \<open>A small example\<close>

text \<open>
  Two objects, four pivots read from a pivot file, pairs of pivots (the default),
  prefix 4, two indexing workers. The pool gives object 0 to worker 1 and object 1
  to worker 0; in the sorting loop the workers take the pivot ids in turn.
\<close>

definition example_params :: AnyParams where
  "example_params =
     [(''numPivot'', PNum 4), (''numPrefix'', PNum 4), (''indexThreadQty'', PNum 2),
      (''pivotFile'', PStr ''pivots'')]"

definition example_env :: BuildEnv where
  "example_env = \<lparr> hw_concurrency = 2, sample_pivots_ok = False, file_pivot_qty = 4,
     vDstOf = (\<lambda>i. if i = 0 then [0, 1, 2, 3] else [3, 2, 1, 0]),
     sched_objects = [(0, 1), (1, 0)],
     sched_sort = [(0, 0), (1, 1), (2, 0), (3, 1)] \<rparr>"

text \<open>
  A query against the index of the example: build, set the query-time parameters,
  search.
\<close>

definition example_search :: "AnyParams \<Rightarrow> int list \<Rightarrow> error + nat list \<times> nat list" where
  "example_search QueryTimeParams vDstQuery =
     bindE (CreateIndex (new_Index 2) example_params example_env) (\<lambda>idx.
     bindE (SetQueryTimeParams idx QueryTimeParams) (\<lambda>idx1.
     GenSearch idx1 vDstQuery (replicate (maxPostQty idx1) 0) []))"

text \<open>
  A second build, with one worker: four pivots from the pivot file, prefix 3, pairs. \<open>small_index\<close> is
  the index it yields (lemma \<open>small_index_built\<close>). \<open>sparse_index\<close> is the index of
  the same data with prefix 2, after \<open>numPivotSearch = 1\<close> has been set at query
  time (lemma \<open>sparse_index_built\<close>).
\<close>

definition small_params :: AnyParams where
  "small_params =
     [(''numPivot'', PNum 4), (''numPrefix'', PNum 3), (''indexThreadQty'', PNum 1),
      (''pivotFile'', PStr ''pivots'')]"

definition small_env :: BuildEnv where
  "small_env = \<lparr> hw_concurrency = 1, sample_pivots_ok = False, file_pivot_qty = 4,
     vDstOf = (\<lambda>i. if i = 0 then [0, 1, 2, 3] else [3, 2, 1, 0]),
     sched_objects = [(0, 0), (1, 0)],
     sched_sort = [(0, 0), (1, 0), (2, 0), (3, 0)] \<rparr>"

definition small_index :: Index where
  "small_index =
     \<lparr> dataQty = 2, num_pivot = 4, num_prefix = 3, index_thread_qty = 1,
       disable_pivot_index = False, hash_trick_dim = 0, pivot_file = ''pivots'',
       skip_val = 1, pivot_comb_qty = 2, print_pivot_stat = 0, maxPostQty = 6,
       exp_avg_post_size = 1, exp_post_per_query_qty = 3, skip_checking = False,
       inv_proc_alg = kStoreSort, min_times = 2, num_prefix_search = 3,
       posting_lists = [[0], [0], [0, 1], [], [1], [1]],
       tmp_posting_lists = [[[], [], [], [], [], []]], tmp_post_doc_qty = [0] \<rparr>"

definition sparse_index :: Index where
  "sparse_index =
     \<lparr> dataQty = 2, num_pivot = 4, num_prefix = 2, index_thread_qty = 1,
       disable_pivot_index = False, hash_trick_dim = 0, pivot_file = ''pivots'',
       skip_val = 1, pivot_comb_qty = 2, print_pivot_stat = 0, maxPostQty = 6,
       exp_avg_post_size = 0, exp_post_per_query_qty = 0, skip_checking = False,
       inv_proc_alg = kStoreSort, min_times = 1, num_prefix_search = 2,
       posting_lists = [[0], [], [], [], [], [1]],
       tmp_posting_lists = [[[], [], [], [], [], []]], tmp_post_doc_qty = [0] \<rparr>"

text \<open>
  A permutation of the pivot ids \<open>0, \<dots>, 100000\<close> (so \<open>num_pivot_ = 100001\<close>) whose
  two closest pivots are 100000 and 3.
\<close>

definition wide_perm :: "nat list" where
  "wide_perm = 100000 # 3 # [0..<3] @ [4..<100000]"

section \<open>Notions used in the statements\<close>

text \<open>
  The buffer of \<open>genPivotCombIds\<close> (and of the store-and-sort copy) is a vector and a
  count; the elements written so far are the first \<open>count\<close> elements.
\<close>

definition valid_buf :: "nat list \<times> nat \<Rightarrow> bool" where
  "valid_buf st = (snd st \<le> length (fst st))"

definition written :: "nat list \<times> nat \<Rightarrow> nat list" where
  "written st = take (snd st) (fst st)"

text \<open>
  The keys of a query: the permutation of the query, then the encoder on its prefix
  of length \<open>num_prefix_search_\<close>. \<open>keyPosts\<close> are the posting lists of the keys, and
  \<open>hitCount posts i\<close> is the number of hits of the object \<open>i\<close> in them; the
  accumulated count of the object is \<open>skip_val_\<close> times that number.
\<close>

definition queryKeys :: "Index \<Rightarrow> int list \<Rightarrow> nat list \<Rightarrow> error + nat list" where
  "queryKeys this vDstQuery combBuf =
     bindE (GetPermutationPPIndexEfficiently this vDstQuery) (\<lambda>perm_q.
     bindE (genPivotCombIds this combBuf perm_q (num_prefix_search this)) (\<lambda>res.
     Inr (take (snd res) (fst res))))"

definition keyPosts :: "Index \<Rightarrow> nat list \<Rightarrow> nat list list" where
  "keyPosts this keys = map (\<lambda>c. posting_lists this ! c) keys"





section \<open>Basic facts about the error monad and the parameter manager\<close>

lemma bindE_simps [simp]: "bindE (Inl e) f = Inl e" "bindE (Inr v) f = f v"
  by (simp_all add: bindE_def)

lemma bindE_weak_cong [cong]: "m = m' \<Longrightarrow> bindE m f = bindE m' f"
  by simp

lemma bindE_eq_Inr: "bindE m f = Inr r \<longleftrightarrow> (\<exists>v. m = Inr v \<and> f v = Inr r)"
  by (cases m) simp_all

lemma isOk_simps [simp]: "isOk (Inl e) = False" "isOk (Inr v) = True"
  by (simp_all add: isOk_def)

lemma isOk_iff: "isOk m \<longleftrightarrow> (\<exists>v. m = Inr v)"
  by (cases m) simp_all

lemma getNum_Cons:
  "getNum ((n, v) # ps) name d =
     (if n = name
      then (case v of PNum k \<Rightarrow> Inr k | PBool b \<Rightarrow> Inl (BadParam name)
            | PStr s \<Rightarrow> Inl (BadParam name))
      else getNum ps name d)"
  by (simp add: getNum_def)

lemma getBool_Cons:
  "getBool ((n, v) # ps) name d =
     (if n = name
      then (case v of PBool k \<Rightarrow> Inr k | PNum b \<Rightarrow> Inl (BadParam name)
            | PStr s \<Rightarrow> Inl (BadParam name))
      else getBool ps name d)"
  by (simp add: getBool_def)

lemma getStr_Cons:
  "getStr ((n, v) # ps) name d =
     (if n = name
      then (case v of PStr k \<Rightarrow> Inr k | PNum b \<Rightarrow> Inl (BadParam name)
            | PBool s \<Rightarrow> Inl (BadParam name))
      else getStr ps name d)"
  by (simp add: getStr_def)

lemma hasParam_Cons:
  "hasParam ((n, v) # ps) name = (if n = name then True else hasParam ps name)"
  by (simp add: hasParam_def)

lemma CheckUnused_Cons:
  "CheckUnused ((n, v) # ps) known =
     (if n \<in> set known then CheckUnused ps known else Inl (BadParam n))"
  by (simp add: CheckUnused_def)

lemma getNum_Inl: "getNum ps name d = Inl e \<Longrightarrow> e = BadParam name"
  by (auto simp: getNum_def split: option.splits pval.splits)

lemma ResetQueryTimeParams_ok:
  "num_prefix this \<le> num_pivot this \<Longrightarrow>
   ResetQueryTimeParams this =
     Inr (this\<lparr> skip_checking := False, min_times := 2,
                num_prefix_search := num_prefix this, inv_proc_alg := kStoreSort \<rparr>)"
  by (simp add: ResetQueryTimeParams_def SetQueryTimeParams_def getBool_def getStr_def
      getNum_def hasParam_def CheckUnused_def parseInvProcAlg_def
      PERM_PROC_STORE_SORT_def PERM_PROC_FAST_SCAN_def)

section \<open>The accepted combination orders\<close>

lemma CreateIndex_params_not_two:
  assumes ok: "CreateIndex_params this ((''pivotCombQty'', PNum 2) # ps) hw = Inr r"
    and k: "k \<noteq> 2"
  shows "CreateIndex_params this ((''pivotCombQty'', PNum k) # ps) hw =
           Inl (CheckFailed (if k = 1 \<or> k = 3
                             then ''Only two pivot combinations are currently supported''
                             else ''Illegal number of pivots in the combinations''))"
  using ok k
  unfolding CreateIndex_params_def getNum_Cons getBool_Cons getStr_Cons hasParam_Cons
    CheckUnused_Cons
  by (auto simp: bindE_eq_Inr getPostQtys_def ResetQueryTimeParams_ok split: if_splits)

text \<open>
  C2, as the code has it. \<open>CreateIndex\<close> accepts \<open>pivotCombQty = 2\<close> only. Whenever
  the build succeeds with \<open>pivotCombQty = 2\<close>, the same parameters and data with any
  other value are rejected: the values 1 and 3 by the check ``Only two pivot
  combinations are currently supported'' of line 102, every value outside 1..3 by
  the check of line 95.
\<close>

theorem CreateIndex_accepts_only_two:
  assumes "isOk (CreateIndex this ((''pivotCombQty'', PNum 2) # ps) env)"
  shows "(isOk (CreateIndex this ((''pivotCombQty'', PNum k) # ps) env) \<longleftrightarrow> k = 2)
       \<and> (k = 1 \<or> k = 3 \<longrightarrow>
            CreateIndex this ((''pivotCombQty'', PNum k) # ps) env
              = Inl (CheckFailed ''Only two pivot combinations are currently supported''))
       \<and> (k = 0 \<or> 3 < k \<longrightarrow>
            CreateIndex this ((''pivotCombQty'', PNum k) # ps) env
              = Inl (CheckFailed ''Illegal number of pivots in the combinations''))"
proof (cases "k = 2")
  case True
  with assms show ?thesis by simp
next
  case False
  from assms obtain r where
    "CreateIndex_params this ((''pivotCombQty'', PNum 2) # ps) (hw_concurrency env) = Inr r"
    by (cases "CreateIndex_params this ((''pivotCombQty'', PNum 2) # ps) (hw_concurrency env)")
       (simp_all add: CreateIndex_def)
  from CreateIndex_params_not_two [OF this False]
  have "CreateIndex this ((''pivotCombQty'', PNum k) # ps) env =
          Inl (CheckFailed (if k = 1 \<or> k = 3
                            then ''Only two pivot combinations are currently supported''
                            else ''Illegal number of pivots in the combinations''))"
    by (simp add: CreateIndex_def)
  with False show ?thesis by auto
qed

theorem CreateIndex_accepts_only_two_witness:
  "isOk (CreateIndex (new_Index 2) ((''pivotCombQty'', PNum 2) # example_params) example_env)
   \<and> CreateIndex (new_Index 2) ((''pivotCombQty'', PNum 3) # example_params) example_env
       = Inl (CheckFailed ''Only two pivot combinations are currently supported'')
   \<and> CreateIndex (new_Index 2) ((''pivotCombQty'', PNum 7) # example_params) example_env
       = Inl (CheckFailed ''Illegal number of pivots in the combinations'')"
proof -
  have ok: "isOk (CreateIndex (new_Index 2) ((''pivotCombQty'', PNum 2) # example_params)
              example_env)"
    by code_simp
  from CreateIndex_accepts_only_two [OF ok, of 3] CreateIndex_accepts_only_two [OF ok, of 7] ok
  show ?thesis by simp
qed

text \<open>
  C2 as stated fails: with parameters and data for which the build succeeds at
  \<open>pivotCombQty = 2\<close>, the value 1 is rejected.
\<close>

theorem CreateIndex_rejects_one_counterexample:
  "isOk (CreateIndex (new_Index 2) ((''pivotCombQty'', PNum 2) # example_params) example_env)
   \<and> CreateIndex (new_Index 2) ((''pivotCombQty'', PNum 1) # example_params) example_env
       = Inl (CheckFailed ''Only two pivot combinations are currently supported'')"
  by code_simp

section \<open>The synonyms numPrefix and numPivotIndex\<close>

text \<open>
  C9. \<open>CreateIndex\<close> raises an error whenever both \<open>numPrefix\<close> and \<open>numPivotIndex\<close>
  are supplied, whatever their values: the error of line 73, unless reading
  \<open>numPivot\<close> (line 70) has failed before.
\<close>

theorem CreateIndex_rejects_both_prefix_aliases:
  assumes "hasParam ps ''numPivotIndex''" and "hasParam ps ''numPrefix''"
  shows "CreateIndex this ps env
           = Inl (RuntimeError ''numPrefix and numPivotIndex are synonyms'')
       \<or> CreateIndex this ps env = Inl (BadParam ''numPivot'')"
proof (cases "getNum ps ''numPivot'' 512")
  case (Inl e)
  then show ?thesis
    by (simp add: CreateIndex_def CreateIndex_params_def getNum_Inl [OF Inl])
next
  case (Inr n)
  with assms show ?thesis
    by (simp add: CreateIndex_def CreateIndex_params_def)
qed

theorem CreateIndex_rejects_both_prefix_aliases_witness:
  "hasParam [(''numPrefix'', PNum 4), (''numPivotIndex'', PNum 4)] ''numPivotIndex''
   \<and> hasParam [(''numPrefix'', PNum 4), (''numPivotIndex'', PNum 4)] ''numPrefix''
   \<and> CreateIndex (new_Index 6) [(''numPrefix'', PNum 4), (''numPivotIndex'', PNum 4)]
        example_env
       = Inl (RuntimeError ''numPrefix and numPivotIndex are synonyms'')"
proof -
  have a: "hasParam [(''numPrefix'', PNum 4), (''numPivotIndex'', PNum 4)] ''numPivotIndex''"
    and b: "hasParam [(''numPrefix'', PNum 4), (''numPivotIndex'', PNum 4)] ''numPrefix''"
    by (simp_all add: hasParam_def)
  have c: "CreateIndex (new_Index 6) [(''numPrefix'', PNum 4), (''numPivotIndex'', PNum 4)]
             example_env \<noteq> Inl (BadParam ''numPivot'')"
    by code_simp
  from CreateIndex_rejects_both_prefix_aliases [OF a b, of "new_Index 6" example_env] a b c
  show ?thesis by simp
qed

section \<open>The threshold base read at query time\<close>

lemma SetQueryTimeParams_min_times:
  assumes "SetQueryTimeParams this ps = Inr this1"
  shows "getNum ps ''numPivotSearch'' 2 = Inr (min_times this1)"
  using assms unfolding SetQueryTimeParams_def
  by (auto simp: bindE_eq_Inr split: if_splits)

text \<open>
  C8 at the input \<open>minTimes = 5\<close>, \<open>numPivotSearch\<close> not given: the call succeeds and
  \<open>min_times_\<close> is 2, the default of the second \<open>GetParamOptional\<close> of line 281, and
  not 5.
\<close>

theorem SetQueryTimeParams_minTimes_overwritten:
  "map_sum id min_times (SetQueryTimeParams (new_Index 6) [(''minTimes'', PNum 5)]) = Inr 2"
  by code_simp

section \<open>Saving and loading\<close>

text \<open>
  C10. When the stream can be opened, \<open>SaveIndex\<close> and \<open>LoadIndex\<close> raise the runtime
  error of lines 339 and 381. \<open>SaveIndex\<close> leaves the index as it was and writes
  nothing: the file it has opened is empty. \<open>LoadIndex\<close> restores nothing: the index
  is as it was.
\<close>

theorem SaveIndex_LoadIndex_always_throw:
  "(can_write location \<longrightarrow>
      SaveIndex this location can_write fs
        = (Inl (RuntimeError ''This was never properly updated, likely it does not work!''),
           this, fs(location \<mapsto> [])))
   \<and> (fs location \<noteq> None \<longrightarrow>
      LoadIndex this location fs
        = (Inl (RuntimeError ''This was never properly updated, likely it does not work!''),
           this))"
  by (auto simp: SaveIndex_def LoadIndex_def never_updated_def)

theorem SaveIndex_LoadIndex_always_throw_witness:
  "SaveIndex (new_Index 6) ''idx'' (\<lambda>l. True) [''idx'' \<mapsto> [''old'']]
     = (Inl (RuntimeError ''This was never properly updated, likely it does not work!''),
        new_Index 6, [''idx'' \<mapsto> []])
   \<and> LoadIndex (new_Index 6) ''idx'' [''idx'' \<mapsto> [''old'']]
     = (Inl (RuntimeError ''This was never properly updated, likely it does not work!''),
        new_Index 6)"
  using SaveIndex_LoadIndex_always_throw
          [of "\<lambda>l. True" "''idx''" "new_Index 6" "[''idx'' \<mapsto> [''old'']]"]
  by simp

section \<open>The final sort of the build\<close>

text \<open>
  C1 at the example: the build succeeds, \<open>maxPostQty\<close> is 6, and the posting list of
  bucket 4 is \<open>[1, 0]\<close> at the end of \<open>CreateIndex\<close>. The sorting loop of lines
  197--201 runs over \<open>[0, num_pivot_)\<close>, here the buckets 0 to 3, and bucket 4 is never
  sorted.
\<close>

theorem CreateIndex_leaves_bucket_unsorted:
  "is_schedule 0 2 2 (sched_objects example_env)
   \<and> is_schedule 0 4 2 (sched_sort example_env)
   \<and> map_sum id (\<lambda>r. (maxPostQty r, posting_lists r ! 4, sorted (posting_lists r ! 4)))
        (CreateIndex (new_Index 2) example_params example_env)
       = Inr (6, [1, 0], False)"
  by code_simp

section \<open>What the encoder emits\<close>

lemma emit_written:
  assumes "valid_buf st"
  shows "valid_buf (emit st v) \<and> written (emit st v) = written st @ [v]"
proof -
  obtain ids n where st: "st = (ids, n)" by (cases st)
  with assms have n: "n \<le> length ids" by (simp add: valid_buf_def)
  show ?thesis
  proof (cases "n + 1 \<ge> length ids")
    case True
    then have e: "emit (ids, n) v = ((resize ids (2 * (n + 1)))[n := v], n + 1)"
      by (simp add: emit_def)
    have l: "length (resize ids (2 * (n + 1))) = 2 * (n + 1)"
      using n by (simp add: resize_def)
    have t: "take n (resize ids (2 * (n + 1))) = take n ids"
      using n by (simp add: resize_def)
    show ?thesis
      using l t n by (simp add: e valid_buf_def written_def st take_Suc_conv_app_nth)
  next
    case False
    then have e: "emit (ids, n) v = (ids[n := v], n + 1)"
      by (simp add: emit_def)
    show ?thesis
      using False n by (simp add: e valid_buf_def written_def st take_Suc_conv_app_nth)
  qed
qed

lemma skipFilter_written:
  assumes "0 < sv" and "valid_buf st"
  shows "\<exists>st1. skipFilter sv idx st = Inr st1 \<and> valid_buf st1
           \<and> written st1 = written st @ (if idx mod sv = 0 then [trunc32 (idx div sv)] else [])"
proof (cases "idx mod sv = 0")
  case True
  with assms emit_written [of st "trunc32 (idx div sv)"] show ?thesis
    by (simp add: skipFilter_def Let_def)
next
  case False
  with assms show ?thesis
    by (simp add: skipFilter_def Let_def)
qed

lemma forE_written:
  assumes "\<And>i st. i \<in> set js \<Longrightarrow> valid_buf st \<Longrightarrow>
             \<exists>st1. body i st = Inr st1 \<and> valid_buf st1 \<and> written st1 = written st @ g i"
    and "valid_buf st"
  shows "\<exists>st1. forE js st body = Inr st1 \<and> valid_buf st1
           \<and> written st1 = written st @ concat (map g js)"
  using assms
proof (induction js arbitrary: st)
  case Nil
  then show ?case by simp
next
  case (Cons j js)
  from Cons.prems(1) [of j st] Cons.prems(2)
  obtain st1 where s1: "body j st = Inr st1" "valid_buf st1" "written st1 = written st @ g j"
    by auto
  from Cons.IH [of st1] Cons.prems(1) s1(2)
  obtain st2 where "forE js st1 body = Inr st2" "valid_buf st2"
    "written st2 = written st1 @ concat (map g js)"
    by (metis list.set_intros(2))
  with s1 show ?case by simp
qed


lemma trunc32_small: "x < 2 ^ 32 \<Longrightarrow> trunc32 x = x"
  by (simp add: trunc32_def)

lemma PostingListIndex_bound:
  assumes "x < 65536" and "y < 65536"
  shows "PostingListIndex x y < 2 ^ 32"
proof -
  let ?m = "max x y"
  have m: "?m \<le> 65535" and mn: "min x y \<le> 65535" using assms by auto
  then have "?m * (?m - 1) \<le> 65535 * 65534"
    by (intro mult_le_mono) auto
  then have "?m * (?m - 1) div 2 \<le> 65535 * 65534 div 2"
    by (rule div_le_mono)
  with mn show ?thesis by (simp add: PostingListIndex_def)
qed

lemma concat_map_concat:
  "concat (map h (concat xss)) = concat (map (\<lambda>xs. concat (map h xs)) xss)"
  by (induction xss) simp_all

text \<open>
  C5, as the code has it. For pairs (\<open>pivot_comb_qty_ = 2\<close>), a positive \<open>skip_val_\<close>,
  a prefix length \<open>P\<close> within the permutation, and pairs \<open>0 \<le> a < b < P\<close> whose
  \<open>idx / skip_val\<close>, \<open>idx = PAIR(perm[b], perm[a])\<close>, is below \<open>2 ^ 32\<close> (line 516 stores
  it in a \<open>uint32_t\<close>; pivot ids below \<open>2 ^ 16\<close> are enough, by lemma
  \<open>PostingListIndex_bound\<close>), the encoder succeeds, and the keys it has written are, in
  this order, \<open>idx / skip_val\<close> for the pairs \<open>0 \<le> a < b < P\<close> with
  \<open>idx mod skip_val = 0\<close>. The number it returns is the number of keys written.
\<close>

theorem genPivotCombIds_pairs:
  assumes k: "pivot_comb_qty this = 2"
    and sv: "0 < skip_val this"
    and P: "P \<le> length perm"
    and fits: "\<forall>b<P. \<forall>a<b. PostingListIndex (perm ! b) (perm ! a) div skip_val this < 2 ^ 32"
  shows "\<exists>ids1 n. genPivotCombIds this ids perm P = Inr (ids1, n)
           \<and> n \<le> length ids1
           \<and> take n ids1 =
               [idx div skip_val this.
                  idx \<leftarrow> [PostingListIndex (perm ! b) (perm ! a). b \<leftarrow> [1..<P], a \<leftarrow> [0..<b]],
                  idx mod skip_val this = 0]"
proof -
  let ?sv = "skip_val this"
  let ?f = "\<lambda>j k. PostingListIndex (perm ! j) (perm ! k)"
  let ?h = "\<lambda>idx. if idx mod ?sv = 0 then [idx div ?sv] else []"
  let ?inner = "\<lambda>j st. forE [0..<j] st (\<lambda>k st1.
            if j \<ge> length perm then Inl OutOfBounds
            else if k \<ge> length perm then Inl OutOfBounds
            else skipFilter ?sv (?f j k) st1)"
  have inner: "\<exists>st1. ?inner j st = Inr st1 \<and> valid_buf st1
                 \<and> written st1 = written st @ concat (map (\<lambda>k. ?h (?f j k)) [0..<j])"
    if j: "j \<in> set [1..<P]" and v: "valid_buf st" for j st
  proof (rule forE_written [OF _ v])
    fix i st0 assume i: "i \<in> set [0..<j]" and v0: "valid_buf st0"
    from i j P have b: "i < length perm" "j < length perm" "i < j" "j < P" by auto
    with fits have "?f j i div ?sv < 2 ^ 32" by blast
    then have t: "trunc32 (?f j i div ?sv) = ?f j i div ?sv" by (rule trunc32_small)
    from skipFilter_written [OF sv v0, of "?f j i"] b t
    show "\<exists>st1. (if length perm \<le> j then Inl OutOfBounds
                  else if length perm \<le> i then Inl OutOfBounds
                  else skipFilter ?sv (?f j i) st0) = Inr st1
             \<and> valid_buf st1 \<and> written st1 = written st0 @ ?h (?f j i)"
      by auto
  qed
  have v0: "valid_buf (ids, 0)" by (simp add: valid_buf_def)
  from forE_written [of "[1..<P]" ?inner "\<lambda>j. concat (map (\<lambda>k. ?h (?f j k)) [0..<j])", OF inner v0]
  obtain st1 where r: "forE [1..<P] (ids, 0) ?inner = Inr st1" "valid_buf st1"
    "written st1 = concat (map (\<lambda>j. concat (map (\<lambda>k. ?h (?f j k)) [0..<j])) [1..<P])"
    by (auto simp: written_def)
  have g: "genPivotCombIds this ids perm P = Inr (fst st1, snd st1)"
    using r(1) k by (simp add: genPivotCombIds_def)
  have "take (snd st1) (fst st1) =
          [idx div ?sv. idx \<leftarrow> [?f b a. b \<leftarrow> [1..<P], a \<leftarrow> [0..<b]], idx mod ?sv = 0]"
    using r(3) by (simp add: written_def concat_map_concat o_def)
  with g r(2) show ?thesis
    by (intro exI [of _ "fst st1"] exI [of _ "snd st1"]) (simp add: valid_buf_def)
qed

theorem genPivotCombIds_pairs_witness:
  "\<exists>ids1 n. genPivotCombIds ((new_Index 6)\<lparr>pivot_comb_qty := 2, skip_val := 2\<rparr>)
               [0, 0, 0] [2, 1, 0, 3] 4 = Inr (ids1, n)
     \<and> n \<le> length ids1 \<and> take n ids1 = [1, 0, 2]"
proof -
  let ?I = "(new_Index 6)\<lparr>pivot_comb_qty := 2, skip_val := 2\<rparr>"
  have a: "pivot_comb_qty ?I = 2" and b: "0 < skip_val ?I"
    and c: "4 \<le> length [2, 1, 0, 3::nat]"
    by simp_all
  have d: "\<forall>b<4. \<forall>a<b. PostingListIndex ([2, 1, 0, 3] ! b) ([2, 1, 0, 3] ! a) div skip_val ?I
             < 2 ^ 32"
  proof (intro allI impI)
    fix b a :: nat assume "b < 4" "a < b"
    then have "[2, 1, 0, 3::nat] ! b < 65536" "[2, 1, 0, 3::nat] ! a < 65536"
      by (simp_all add: nth_Cons' )
    then have "PostingListIndex ([2, 1, 0, 3] ! b) ([2, 1, 0, 3] ! a) < 2 ^ 32"
      by (rule PostingListIndex_bound)
    then show "PostingListIndex ([2, 1, 0, 3] ! b) ([2, 1, 0, 3] ! a) div skip_val ?I < 2 ^ 32"
      by (meson div_le_dividend le_less_trans)
  qed
  have e: "[idx div skip_val ?I.
              idx \<leftarrow> [PostingListIndex ([2, 1, 0, 3] ! b) ([2, 1, 0, 3] ! a).
                         b \<leftarrow> [1..<4], a \<leftarrow> [0..<b]],
              idx mod skip_val ?I = 0] = [1, 0, 2]"
    by code_simp
  from genPivotCombIds_pairs [OF a b c d, of "[0, 0, 0]"] show ?thesis
    unfolding e .
qed

lemma wide_perm_facts:
  "length wide_perm = 100001" "wide_perm ! 0 = 100000" "wide_perm ! Suc 0 = 3"
  by (simp_all add: wide_perm_def del: upt_rec_numeral)

lemma wide_perm_is_permutation: "distinct wide_perm \<and> set wide_perm = {0..<100001}"
  by (auto simp: wide_perm_def simp del: upt_rec_numeral)

text \<open>
  C5 as stated, for every permutation, fails: on the permutation \<open>wide_perm\<close> of
  100001 pivots and the prefix length 2 (\<open>skip_val_ = 1\<close>), the only pair has
  \<open>idx = PAIR(3, 100000) = 4999950003\<close>, and the encoder writes the key
  \<open>4999950003 mod 2 ^ 32 = 704982707\<close>.
\<close>

theorem genPivotCombIds_pairs_cut_counterexample:
  "genPivotCombIds ((new_Index 6)\<lparr>pivot_comb_qty := 2, skip_val := 1\<rparr>)
     [0, 0, 0] wide_perm 2 = Inr ([704982707, 0, 0], 1)
   \<and> [idx div 1. idx \<leftarrow> [PostingListIndex (wide_perm ! 1) (wide_perm ! 0)], idx mod 1 = 0]
       = [4999950003]"
proof -
  have u: "[Suc 0..<2] = [Suc 0]" by (simp add: upt_rec)
  have t: "trunc32 4999950003 = 704982707" by (simp add: trunc32_def)
  have p: "PostingListIndex 3 100000 = 4999950003" by (simp add: PostingListIndex_def)
  show ?thesis
    by (simp add: genPivotCombIds_def new_Index_def u wide_perm_facts p t skipFilter_def
        emit_def Let_def)
qed

section \<open>Single pivots and the full prefix\<close>




section \<open>Searching with an empty prefix\<close>

lemma forE_Nil_upt [simp]: "forE [i..<0] s body = Inr s"
  by simp

text \<open>
  C6, as the code has it. With \<open>num_prefix_search_ = 0\<close> the query aborts: every one
  of the four algorithms starts with \<open>CHECK(num_prefix_search_ >= 1)\<close> (lines 619,
  685, 712, 739). No candidate list is produced and nothing is handed to
  \<open>CheckAndAddToResult\<close>. For pairs and triples, and a distance vector that covers
  the pivots, the error is that of the failed check.
\<close>

theorem GenSearch_zero_prefix_aborts:
  assumes "num_prefix_search this = 0"
  shows "\<not> isOk (GenSearch this vDstQuery combBuf tmpResBuf)
       \<and> (num_pivot this \<le> length vDstQuery
            \<and> (pivot_comb_qty this = 2 \<or> pivot_comb_qty this = 3) \<longrightarrow>
          GenSearch this vDstQuery combBuf tmpResBuf
            = Inl (CheckFailed ''num_prefix_search_ >= 1''))"
proof -
  have alg: "(case inv_proc_alg this of
                kPriorQueue \<Rightarrow> procPriorQueue this ids n (thresh_of this)
              | kScan \<Rightarrow> procScan this ids n (thresh_of this)
              | kMerge \<Rightarrow> procMerge this ids n (thresh_of this)
              | kStoreSort \<Rightarrow> procStoreSort this ids n (thresh_of this) tmpResBuf)
             = Inl (CheckFailed ''num_prefix_search_ >= 1'')" for ids n
    using assms
    by (cases "inv_proc_alg this")
       (simp_all add: procPriorQueue_def procScan_def procMerge_def procStoreSort_def)
  have a: "\<not> isOk (GenSearch this vDstQuery combBuf tmpResBuf)"
  proof (cases "GetPermutationPPIndexEfficiently this vDstQuery")
    case (Inl e)
    then show ?thesis by (simp add: GenSearch_def)
  next
    case (Inr perm_q)
    show ?thesis
    proof (cases "genPivotCombIds this combBuf perm_q (num_prefix_search this)")
      case (Inl e)
      with Inr show ?thesis by (simp add: GenSearch_def)
    next
      case (Inr res)
      with \<open>GetPermutationPPIndexEfficiently this vDstQuery = Inr perm_q\<close> alg
      show ?thesis by (simp add: GenSearch_def)
    qed
  qed
  have b: "GenSearch this vDstQuery combBuf tmpResBuf
             = Inl (CheckFailed ''num_prefix_search_ >= 1'')"
    if "num_pivot this \<le> length vDstQuery"
      and "pivot_comb_qty this = 2 \<or> pivot_comb_qty this = 3"
    using that assms alg
    by (auto simp: GenSearch_def GetPermutationPPIndexEfficiently_def genPivotCombIds_def)
  from a b show ?thesis by blast
qed

theorem GenSearch_zero_prefix_aborts_witness:
  "num_prefix_search ((new_Index 2)\<lparr> num_pivot := 4, pivot_comb_qty := 2, skip_val := 1 \<rparr>) = 0
   \<and> GenSearch ((new_Index 2)\<lparr> num_pivot := 4, pivot_comb_qty := 2, skip_val := 1 \<rparr>)
        [0, 1, 2, 3] [] [] = Inl (CheckFailed ''num_prefix_search_ >= 1'')"
proof -
  let ?I = "(new_Index 2)\<lparr> num_pivot := 4, pivot_comb_qty := 2, skip_val := 1 \<rparr>"
  have z: "num_prefix_search ?I = 0" by (simp add: new_Index_def)
  from GenSearch_zero_prefix_aborts [OF z, of "[0, 1, 2, 3]" "[]" "[]"] z
  show ?thesis by (simp add: new_Index_def)
qed

text \<open>
  C6 as stated fails: on the index of the example, a query with
  \<open>numPrefixSearch = 0\<close> does not complete; it ends in the failed check.
\<close>

theorem GenSearch_zero_prefix_counterexample:
  "example_search [(''numPrefixSearch'', PNum 0)] [0, 1, 2, 3]
     = Inl (CheckFailed ''num_prefix_search_ >= 1'')"
  by code_simp

section \<open>Loops over the query keys\<close>

lemma bindE_forE_Nil [simp]: "bindE m (\<lambda>s1. forE [] s1 body) = m"
  by (cases m) simp_all




subsection \<open>Scan\<close>

lemma trunc32_add_left [simp]: "trunc32 (trunc32 a + b) = trunc32 (a + b)"
  by (simp add: trunc32_def mod_add_left_eq)

lemma trunc32_add_right [simp]: "trunc32 (a + trunc32 b) = trunc32 (a + b)"
  by (simp add: trunc32_def mod_add_right_eq)

lemma trunc32_idem [simp]: "trunc32 (trunc32 a) = trunc32 a"
  by (simp add: trunc32_def)



lemma trunc32_0 [simp]: "trunc32 0 = 0"
  by (simp add: trunc32_def)


subsection \<open>Store and sort\<close>









subsection \<open>Priority queue\<close>

lemma set_heap_push [simp]: "set (heap_push k d h) = insert (k, d) (set h)"
  by (induction h) auto















section \<open>The query executor on three algorithms\<close>





lemma genPivotCombIds_alg [simp]:
  "genPivotCombIds (this\<lparr> inv_proc_alg := a \<rparr>) ids perm P = genPivotCombIds this ids perm P"
  by (simp add: genPivotCombIds_def cong: if_cong)

lemma GetPermutation_alg [simp]:
  "GetPermutationPPIndexEfficiently (this\<lparr> inv_proc_alg := a \<rparr>) vDst
     = GetPermutationPPIndexEfficiently this vDst"
  by (simp add: GetPermutationPPIndexEfficiently_def)

lemma queryKeys_alg [simp]:
  "queryKeys (this\<lparr> inv_proc_alg := a \<rparr>) vDstQuery combBuf = queryKeys this vDstQuery combBuf"
  by (simp add: queryKeys_def cong del: bindE_weak_cong)

lemma keyPosts_alg [simp]: "keyPosts (this\<lparr> inv_proc_alg := a \<rparr>) keys = keyPosts this keys"
  by (simp add: keyPosts_def)

lemma thresh_of_alg [simp]: "thresh_of (this\<lparr> inv_proc_alg := a \<rparr>) = thresh_of this"
  by (simp add: thresh_of_def)












section \<open>The example indexes\<close>

lemma small_index_built:
  "is_schedule 0 2 1 (sched_objects small_env)
   \<and> is_schedule 0 4 1 (sched_sort small_env)
   \<and> CreateIndex (new_Index 2) small_params small_env = Inr small_index"
  by code_simp

lemma sparse_index_built:
  "bindE (CreateIndex (new_Index 2) ((''numPrefix'', PNum 2) # small_params) small_env)
     (\<lambda>idx. SetQueryTimeParams idx [(''numPivotSearch'', PNum 1)]) = Inr sparse_index"
  by code_simp






text \<open>
  The pairwise merge on \<open>small_index\<close> with \<open>min_times = 3\<close>: the threshold is 3 and
  object 0 has three hits; the scan returns it. The loop of lines 728--732 reads
  \<open>tmpRes[1 - prevRes]\<close>, the buffer of the previous round, which lacks the last
  posting list, and returns nothing.
\<close>

lemma GenSearch_merge_example:
  "thresh_of (small_index\<lparr> min_times := 3 \<rparr>) = 3
   \<and> map_sum id fst
        (GenSearch (small_index\<lparr> min_times := 3, inv_proc_alg := kScan \<rparr>) [0, 1, 2, 3]
           (replicate 6 0) [])
       = Inr [0]
   \<and> map_sum id fst
        (GenSearch (small_index\<lparr> min_times := 3, inv_proc_alg := kMerge \<rparr>) [0, 1, 2, 3]
           (replicate 6 0) [])
       = Inr []"
  by code_simp

end
